theory Spec2Isabelle
  imports Complex_Main "HOL-Library.Word"
begin

unbundle bit_operations_syntax

section \<open>Values of the host language\<close>

text \<open>
  The streaming consumer is the body of \<open>fetchJourneyAnalysis\<close> in the dashboard's
  \<open>App\<close> component. It reads the response body chunk by chunk (\<open>Uint8Array\<close>s),
  decodes them with a \<open>TextDecoder\<close>, cuts the text at linefeeds and hands every
  \<open>data: \<close> line to \<open>JSON.parse\<close>. A chunk is a list of bytes, a JavaScript string
  a list of UTF-16 code units.
\<close>

type_synonym byte = "8 word"
type_synonym chunk = "byte list"
type_synonym jsstring = "16 word list"

definition str :: "string \<Rightarrow> jsstring" where
  "str s = map of_char s"

text \<open>
  A JavaScript value as far as this code meets one: what \<open>JSON.parse\<close> can return,
  and \<open>undefined\<close> for a property that is absent. An object is the list of its own
  properties.
\<close>

datatype jsval =
    JUndefined
  | JNull
  | JBool bool
  | JNum real
  | JStr jsstring
  | JArr "jsval list"
  | JObj "(jsstring \<times> jsval) list"

text \<open>
  \<open>data.k\<close> on a value that is neither \<open>null\<close> nor \<open>undefined\<close>, for the property
  names this code reads (\<open>type\<close>, \<open>step\<close>, \<open>total\<close>, \<open>current\<close>, \<open>percentage\<close>,
  \<open>message\<close>, \<open>data\<close>): none of them is a property of a string, a number, a boolean
  or an array, nor inherited by an object, so only an object's own properties answer.
\<close>

fun property :: "jsval \<Rightarrow> jsstring \<Rightarrow> jsval" where
  "property (JObj kvs) k = (case map_of kvs k of None \<Rightarrow> JUndefined | Some v \<Rightarrow> v)"
| "property v k = JUndefined"

text \<open>The truth value of a value in a condition (\<open>JSON.parse\<close> never yields NaN).\<close>

fun truthy :: "jsval \<Rightarrow> bool" where
  "truthy JUndefined = False"
| "truthy JNull = False"
| "truthy (JBool b) = b"
| "truthy (JNum r) = (r \<noteq> 0)"
| "truthy (JStr s) = (s \<noteq> [])"
| "truthy (JArr vs) = True"
| "truthy (JObj kvs) = True"

text \<open>\<open>JSON.parse\<close> belongs to the platform: it is a parameter of the model, \<open>None\<close>
  where it throws a \<open>SyntaxError\<close>.\<close>

type_synonym parser = "jsstring \<Rightarrow> jsval option"

section \<open>The platform's streaming decoder\<close>

text \<open>
  \<open>new TextDecoder()\<close> is the UTF-8 decoder of the Encoding Standard in replacement
  mode, with the byte order mark stripped. Its state is the state of the UTF-8 decoder,
  which holds the bytes of a character that a chunk has cut, and the flag
  \<open>BOM seen\<close>.
\<close>

record utf8_decoder =
  code_point :: nat
  bytes_seen :: nat
  bytes_needed :: nat
  lower_boundary :: byte
  upper_boundary :: byte

record TextDecoder =
  utf8 :: utf8_decoder
  BOM_seen :: bool

definition new_utf8_decoder :: utf8_decoder where
  "new_utf8_decoder =
     \<lparr>code_point = 0, bytes_seen = 0, bytes_needed = 0,
      lower_boundary = 0x80, upper_boundary = 0xBF\<rparr>"

definition new_TextDecoder :: TextDecoder where
  "new_TextDecoder = \<lparr>utf8 = new_utf8_decoder, BOM_seen = False\<rparr>"

text \<open>The handler's step for a byte read while no character is open.\<close>

definition lead_byte :: "utf8_decoder \<Rightarrow> byte \<Rightarrow> utf8_decoder \<times> nat list" where
  "lead_byte d b =
     (if b \<le> 0x7F then (d, [unat b])
      else if 0xC2 \<le> b \<and> b \<le> 0xDF then
        (d\<lparr>bytes_needed := 1, code_point := unat (b AND 0x1F)\<rparr>, [])
      else if 0xE0 \<le> b \<and> b \<le> 0xEF then
        (d\<lparr>lower_boundary := (if b = 0xE0 then 0xA0 else lower_boundary d),
           upper_boundary := (if b = 0xED then 0x9F else upper_boundary d),
           bytes_needed := 2, code_point := unat (b AND 0xF)\<rparr>, [])
      else if 0xF0 \<le> b \<and> b \<le> 0xF4 then
        (d\<lparr>lower_boundary := (if b = 0xF0 then 0x90 else lower_boundary d),
           upper_boundary := (if b = 0xF4 then 0x8F else upper_boundary d),
           bytes_needed := 3, code_point := unat (b AND 0x7)\<rparr>, [])
      else (d, [0xFFFD]))"

text \<open>
  The handler for one byte: the new state and the code points emitted. A byte outside the
  expected range closes the open character with U+FFFD and is read again as a lead byte.
\<close>

definition utf8_handler :: "utf8_decoder \<Rightarrow> byte \<Rightarrow> utf8_decoder \<times> nat list" where
  "utf8_handler d b =
     (if bytes_needed d = 0 then lead_byte d b
      else if \<not> (lower_boundary d \<le> b \<and> b \<le> upper_boundary d) then
        (let (d', out) = lead_byte new_utf8_decoder b in (d', 0xFFFD # out))
      else
        (let d1 = d\<lparr>lower_boundary := 0x80, upper_boundary := 0xBF,
                     code_point := push_bit 6 (code_point d) OR unat (b AND 0x3F),
                     bytes_seen := bytes_seen d + 1\<rparr>
         in if bytes_seen d1 \<noteq> bytes_needed d1 then (d1, [])
            else (d1\<lparr>code_point := 0, bytes_needed := 0, bytes_seen := 0\<rparr>,
                  [code_point d1])))"

fun utf8_run :: "utf8_decoder \<Rightarrow> byte list \<Rightarrow> utf8_decoder \<times> nat list" where
  "utf8_run d [] = (d, [])"
| "utf8_run d (b # bs) =
     (let (d1, out1) = utf8_handler d b; (d2, out2) = utf8_run d1 bs
      in (d2, out1 @ out2))"

text \<open>A code point as UTF-16 code units.\<close>

definition utf16 :: "nat \<Rightarrow> jsstring" where
  "utf16 cp =
     (if cp < 0x10000 then [of_nat cp]
      else [of_nat (0xD800 + (cp - 0x10000) div 0x400),
            of_nat (0xDC00 + (cp - 0x10000) mod 0x400)])"

text \<open>Serialising the decoded code points: the first one of the stream is dropped when
  it is the byte order mark.\<close>

fun serialize :: "bool \<Rightarrow> nat list \<Rightarrow> bool \<times> jsstring" where
  "serialize seen [] = (seen, [])"
| "serialize seen (cp # cps) =
     (if \<not> seen \<and> cp = 0xFEFF then serialize True cps
      else (let (seen', s) = serialize True cps in (seen', utf16 cp @ s)))"

text \<open>\<open>decoder.decode(value, { stream: true })\<close>: nothing is flushed, the state stays
  for the next call.\<close>

definition decode :: "TextDecoder \<Rightarrow> chunk \<Rightarrow> TextDecoder \<times> jsstring" where
  "decode decoder val =
     (let (u, cps) = utf8_run (utf8 decoder) val;
          (seen, s) = serialize (BOM_seen decoder) cps
      in (\<lparr>utf8 = u, BOM_seen = seen\<rparr>, s))"

section \<open>Lines\<close>

text \<open>\<open>buffer.split('\n')\<close>: the pieces between linefeeds, at least one.\<close>

fun split_nl :: "jsstring \<Rightarrow> jsstring list" where
  "split_nl [] = [[]]"
| "split_nl (c # cs) =
     (if c = 0x0A then [] # split_nl cs
      else (case split_nl cs of [] \<Rightarrow> [[c]] | l # ls \<Rightarrow> (c # l) # ls))"

fun startsWith :: "jsstring \<Rightarrow> jsstring \<Rightarrow> bool" where
  "startsWith s [] = True"
| "startsWith [] (p # ps) = False"
| "startsWith (c # cs) (p # ps) = (c = p \<and> startsWith cs ps)"

definition substring :: "jsstring \<Rightarrow> nat \<Rightarrow> jsstring" where
  "substring s start = drop (min start (length s)) s"

section \<open>The component's state and the effects of a session\<close>

text \<open>
  The state hooks of \<open>App\<close> that \<open>fetchJourneyAnalysis\<close> writes. A session is observed
  through the calls it makes, in order: the state setters, \<open>console.warn\<close> and the timer
  that scrolls to the results.
\<close>

record app_state =
  histogramData :: jsval
  loading :: bool
  error :: jsval
  aiAnalysis :: jsval
  loadingProgress :: jsval
  realTimeProgress :: jsval

text \<open>What a \<open>try\<close> body can throw into the \<open>catch\<close> around the parser:
  \<open>JSON.parse\<close>'s \<open>SyntaxError\<close>, the \<open>TypeError\<close> of reading a property of \<open>null\<close>,
  and \<open>new Error(data.message)\<close>, kept with its argument.\<close>

datatype exn = SyntaxError | TypeError | Error jsval

datatype effect =
    SetHistogramData jsval
  | SetLoading bool
  | SetError jsval
  | SetAiAnalysis jsval
  | SetLoadingProgress jsval
  | SetRealTimeProgress jsval
  | ScrollToResults
  | ConsoleWarn exn

fun apply_effect :: "effect \<Rightarrow> app_state \<Rightarrow> app_state" where
  "apply_effect (SetHistogramData v) s = s\<lparr>histogramData := v\<rparr>"
| "apply_effect (SetLoading b) s = s\<lparr>loading := b\<rparr>"
| "apply_effect (SetError v) s = s\<lparr>error := v\<rparr>"
| "apply_effect (SetAiAnalysis v) s = s\<lparr>aiAnalysis := v\<rparr>"
| "apply_effect (SetLoadingProgress v) s = s\<lparr>loadingProgress := v\<rparr>"
| "apply_effect (SetRealTimeProgress v) s = s\<lparr>realTimeProgress := v\<rparr>"
| "apply_effect ScrollToResults s = s"
| "apply_effect (ConsoleWarn e) s = s"

definition run_effects :: "effect list \<Rightarrow> app_state \<Rightarrow> app_state" where
  "run_effects es s = fold apply_effect es s"

section \<open>One event\<close>

text \<open>
  The body of the inner \<open>try\<close> after \<open>JSON.parse\<close> has returned \<open>data\<close>: the calls made
  and what is thrown, if anything. Reading \<open>data.type\<close> of \<open>null\<close> throws before any
  call is made.
\<close>

definition handle_data :: "jsval \<Rightarrow> effect list \<times> exn option" where
  "handle_data data =
     (if data = JNull \<or> data = JUndefined then ([], Some TypeError)
      else if property data (str ''type'') = JStr (str ''progress'') then
        (if property data (str ''step'') = JStr (str ''processing_journeys'')
            \<and> truthy (property data (str ''total''))
         then ([SetRealTimeProgress (JObj
                  [(str ''current'', property data (str ''current'')),
                   (str ''total'', property data (str ''total'')),
                   (str ''percentage'', property data (str ''percentage'')),
                   (str ''message'', property data (str ''message''))])], None)
         else ([SetLoadingProgress (property data (str ''message''))], None))
      else if property data (str ''type'') = JStr (str ''complete'') then
        ([SetHistogramData (property data (str ''data'')),
          SetLoadingProgress JNull,
          SetRealTimeProgress JNull,
          ScrollToResults], None)
      else if property data (str ''type'') = JStr (str ''error'') then
        ([], Some (Error (property data (str ''message''))))
      else ([], None))"

text \<open>
  The body of \<open>for (const line of lines)\<close>. Whatever the inner \<open>try\<close> throws, the
  \<open>catch (parseError)\<close> beside it takes and passes to \<open>console.warn\<close>; nothing leaves
  the loop body.
\<close>

definition process_line :: "parser \<Rightarrow> jsstring \<Rightarrow> effect list" where
  "process_line parse line =
     (if startsWith line (str ''data: '') then
        (case parse (substring line 6) of
           None \<Rightarrow> [ConsoleWarn SyntaxError]
         | Some data \<Rightarrow>
             (case handle_data data of
                (effs, None) \<Rightarrow> effs
              | (effs, Some parseError) \<Rightarrow> effs @ [ConsoleWarn parseError]))
      else [])"

definition process_lines :: "parser \<Rightarrow> jsstring list \<Rightarrow> effect list" where
  "process_lines parse lines = concat (map (process_line parse) lines)"

section \<open>The read loop\<close>

text \<open>
  The locals of the loop are the decoder and \<open>buffer\<close>. One turn of \<open>while (true)\<close>
  for a chunk that \<open>reader.read()\<close> delivered: decode, append, split, keep the last
  piece (\<open>lines.pop() || ''\<close>), process the others.
\<close>

definition on_chunk ::
  "parser \<Rightarrow> TextDecoder \<times> jsstring \<Rightarrow> chunk \<Rightarrow> effect list \<times> (TextDecoder \<times> jsstring)" where
  "on_chunk parse st val =
     (let (decoder', text) = decode (fst st) val;
          lines = split_nl (snd st @ text);
          buffer' = (if lines = [] then [] else last lines)
      in (process_lines parse (butlast lines), (decoder', buffer')))"

fun read_loop ::
  "parser \<Rightarrow> TextDecoder \<times> jsstring \<Rightarrow> chunk list \<Rightarrow> effect list \<times> (TextDecoder \<times> jsstring)" where
  "read_loop parse st [] = ([], st)"
| "read_loop parse st (val # rest) =
     (let (effs1, st1) = on_chunk parse st val;
          (effs2, st2) = read_loop parse st1 rest
      in (effs1 @ effs2, st2))"

section \<open>The session\<close>

text \<open>
  What the environment does to one call. \<open>getDateRange()\<close> or \<open>fetch\<close> may throw an
  \<open>Error\<close> with a message; otherwise there is a response with a status and a body. The
  body is \<open>null\<close> (then \<open>response.body.getReader()\<close> throws a \<open>TypeError\<close> with the
  engine's message) or a finite sequence of chunks, after which \<open>reader.read()\<close> either
  reports \<open>done\<close> or rejects.
\<close>

datatype reader_end = Done | ReadRejected jsstring

datatype body = NullBody jsstring | Stream "chunk list" reader_end

datatype environment =
    DateRangeThrew jsstring
  | FetchRejected jsstring
  | Response nat body

definition ok :: "nat \<Rightarrow> bool" where
  "ok status = (200 \<le> status \<and> status \<le> 299)"

fun decimal :: "nat \<Rightarrow> jsstring" where
  "decimal n = (if n < 10 then [of_nat (48 + n)]
                else decimal (n div 10) @ [of_nat (48 + n mod 10)])"

text \<open>The outer \<open>try\<close> block: the calls made and the message of the error that reaches
  the outer \<open>catch\<close>, if one does.\<close>

definition try_block :: "parser \<Rightarrow> environment \<Rightarrow> effect list \<times> jsstring option" where
  "try_block parse env =
     (case env of
        DateRangeThrew m \<Rightarrow> ([], Some m)
      | FetchRejected m \<Rightarrow>
          ([SetLoadingProgress (JStr (str ''Connecting to streaming service...''))], Some m)
      | Response status b \<Rightarrow>
          (let pre = [SetLoadingProgress (JStr (str ''Connecting to streaming service...''))]
           in if \<not> ok status then
                (pre, Some (str ''HTTP error! status: '' @ decimal status))
              else
                (case b of
                   NullBody m \<Rightarrow> (pre, Some m)
                 | Stream chunks fin \<Rightarrow>
                     (let (effs, st) = read_loop parse (new_TextDecoder, []) chunks
                      in (pre @ effs,
                          (case fin of Done \<Rightarrow> None | ReadRejected m \<Rightarrow> Some m))))))"

definition fetchJourneyAnalysis :: "parser \<Rightarrow> environment \<Rightarrow> effect list" where
  "fetchJourneyAnalysis parse env =
     [SetLoading True, SetError JNull, SetAiAnalysis JNull,
      SetLoadingProgress (JStr (str ''Initializing request...'')),
      SetRealTimeProgress JNull]
     @ (case try_block parse env of
          (effs, None) \<Rightarrow> effs
        | (effs, Some m) \<Rightarrow> effs @ [SetError (JStr (str ''Failed to fetch data: '' @ m))])
     @ [SetLoading False, SetLoadingProgress JNull, SetRealTimeProgress JNull]"

section \<open>Notions used to state the properties\<close>

text \<open>The state of the hooks before the first session: \<open>useState(null)\<close> for each but
  \<open>loading\<close>, which starts \<open>false\<close>.\<close>

definition initial_state :: app_state where
  "initial_state =
     \<lparr>histogramData = JNull, loading = False, error = JNull, aiAnalysis = JNull,
      loadingProgress = JNull, realTimeProgress = JNull\<rparr>"

text \<open>The linefeed-terminated lines of the text that a sequence of chunks decodes to.\<close>

definition terminated_lines :: "chunk list \<Rightarrow> jsstring list" where
  "terminated_lines chunks =
     butlast (split_nl (snd (decode new_TextDecoder (concat chunks))))"

text \<open>The parsed payload of a line that is an event line.\<close>

definition event_of :: "parser \<Rightarrow> jsstring \<Rightarrow> jsval option" where
  "event_of parse line =
     (if startsWith line (str ''data: '') then parse (substring line 6) else None)"

text \<open>A line is a well-formed event of a kind: its payload parses to a value whose
  \<open>type\<close> is that kind.\<close>

definition is_event :: "parser \<Rightarrow> string \<Rightarrow> jsstring \<Rightarrow> bool" where
  "is_event parse kind line =
     (case event_of parse line of
        None \<Rightarrow> False
      | Some data \<Rightarrow> data \<noteq> JNull \<and> data \<noteq> JUndefined
          \<and> property data (str ''type'') = JStr (str kind))"

text \<open>The result carried by a line that is a \<open>complete\<close> event, and the result of the
  last such line of a list, \<open>h\<close> when there is none.\<close>

definition complete_data :: "parser \<Rightarrow> jsstring \<Rightarrow> jsval option" where
  "complete_data parse line =
     (if is_event parse ''complete'' line
      then map_option (\<lambda>data. property data (str ''data'')) (event_of parse line)
      else None)"

fun latest_result :: "parser \<Rightarrow> jsval \<Rightarrow> jsstring list \<Rightarrow> jsval" where
  "latest_result parse h [] = h"
| "latest_result parse h (line # rest) =
     latest_result parse (case complete_data parse line of None \<Rightarrow> h | Some v \<Rightarrow> v) rest"

text \<open>ASCII text as the bytes of a chunk.\<close>

definition bytes :: "string \<Rightarrow> chunk" where
  "bytes s = map of_char s"

text \<open>
  \<open>JSON.parse\<close> on the payloads of the examples, each with the value it returns; the one
  further payload of the examples is cut in the middle of a string and is malformed.
\<close>

definition example_parse :: parser where
  \<open>example_parse = map_of
     [(str ''{"type":"progress","current":1,"total":2}'',
       JObj [(str ''type'', JStr (str ''progress'')), (str ''current'', JNum 1),
             (str ''total'', JNum 2)]),
      (str ''{"type":"progress","current":2,"total":2}'',
       JObj [(str ''type'', JStr (str ''progress'')), (str ''current'', JNum 2),
             (str ''total'', JNum 2)]),
      (str ''{"type":"progress","step":"processing_journeys","current":120,"total":500,"percentage":24.0,"message":"Processing journeys..."}'',
       JObj [(str ''type'', JStr (str ''progress'')),
             (str ''step'', JStr (str ''processing_journeys'')),
             (str ''current'', JNum 120), (str ''total'', JNum 500),
             (str ''percentage'', JNum 24),
             (str ''message'', JStr (str ''Processing journeys...''))]),
      (str ''{"type":"progress","message":"'' @ [0x20AC] @ str ''"}'',
       JObj [(str ''type'', JStr (str ''progress'')), (str ''message'', JStr [0x20AC])]),
      (str ''{"type":"complete","data":{"x":1}}'',
       JObj [(str ''type'', JStr (str ''complete'')),
             (str ''data'', JObj [(str ''x'', JNum 1)])]),
      (str ''{"type":"complete","data":{"x":2}}'',
       JObj [(str ''type'', JStr (str ''complete'')),
             (str ''data'', JObj [(str ''x'', JNum 2)])]),
      (str ''{"type":"error","message":"boom"}'',
       JObj [(str ''type'', JStr (str ''error'')), (str ''message'', JStr (str ''boom''))])]\<close>

section \<open>The decoder and the framer over concatenated input\<close>

lemma utf8_run_append:
  "utf8_run d (xs @ ys) =
     (let (d1, out1) = utf8_run d xs; (d2, out2) = utf8_run d1 ys in (d2, out1 @ out2))"
  by (induction xs arbitrary: d) (simp_all add: split_beta Let_def)

lemma serialize_append:
  "serialize seen (xs @ ys) =
     (let (seen1, s1) = serialize seen xs; (seen2, s2) = serialize seen1 ys
      in (seen2, s1 @ s2))"
  by (induction xs arbitrary: seen) (simp_all add: split_beta Let_def)

lemma decode_append:
  "decode d (xs @ ys) =
     (let (d1, s1) = decode d xs; (d2, s2) = decode d1 ys in (d2, s1 @ s2))"
  by (simp add: decode_def utf8_run_append serialize_append split_beta Let_def)

lemma decode_Nil: "decode d [] = (d, [])"
  by (simp add: decode_def)

lemma split_nl_not_Nil: "split_nl s \<noteq> []"
  by (induction s) (simp_all split: list.splits)

lemma split_nl_append:
  "split_nl (a @ b) = butlast (split_nl a) @ split_nl (last (split_nl a) @ b)"
proof (induction a)
  case Nil
  then show ?case by simp
next
  case (Cons c a)
  obtain l ls where sp: "split_nl a = l # ls"
    using split_nl_not_Nil [of a] by (cases "split_nl a") auto
  show ?case
  proof (cases "c = 0x0A")
    case True
    with Cons sp show ?thesis by simp
  next
    case False
    show ?thesis
    proof (cases ls)
      case Nil
      with Cons sp False show ?thesis by (simp split: list.splits)
    next
      case (Cons m ms)
      with Cons.IH sp False show ?thesis by (simp split: list.splits)
    qed
  qed
qed

lemma last_split_nl_no_nl: "0x0A \<notin> set (last (split_nl s))"
  by (induction s) (auto simp: split_nl_not_Nil split: list.splits)

lemma split_nl_no_nl: "0x0A \<notin> set s \<Longrightarrow> split_nl s = [s]"
  by (induction s) auto

lemma process_lines_append:
  "process_lines parse (xs @ ys) = process_lines parse xs @ process_lines parse ys"
  by (simp add: process_lines_def)

lemma on_chunk_append:
  "on_chunk parse st (xs @ ys) =
     (let (effs1, st1) = on_chunk parse st xs; (effs2, st2) = on_chunk parse st1 ys
      in (effs1 @ effs2, st2))"
proof -
  obtain d1 s1 where d1: "decode (fst st) xs = (d1, s1)" by (cases "decode (fst st) xs")
  obtain d2 s2 where d2: "decode d1 ys = (d2, s2)" by (cases "decode d1 ys")
  have sp: "split_nl (snd st @ s1 @ s2) =
        butlast (split_nl (snd st @ s1)) @ split_nl (last (split_nl (snd st @ s1)) @ s2)"
    using split_nl_append [of "snd st @ s1" s2] by simp
  show ?thesis
    by (simp add: on_chunk_def decode_append d1 d2 sp split_nl_not_Nil
        butlast_append process_lines_append Let_def)
qed

lemma on_chunk_Nil: "0x0A \<notin> set (snd st) \<Longrightarrow> on_chunk parse st [] = ([], st)"
  by (simp add: on_chunk_def decode_Nil split_nl_no_nl process_lines_def)

lemma on_chunk_buffer_no_nl: "0x0A \<notin> set (snd (snd (on_chunk parse st val)))"
  by (simp add: on_chunk_def split_beta Let_def split_nl_not_Nil last_split_nl_no_nl)

lemma read_loop_concat:
  "0x0A \<notin> set (snd st) \<Longrightarrow> read_loop parse st chunks = on_chunk parse st (concat chunks)"
proof (induction chunks arbitrary: st)
  case Nil
  then show ?case by (simp add: on_chunk_Nil)
next
  case (Cons val rest)
  obtain effs1 st1 where st1: "on_chunk parse st val = (effs1, st1)"
    by (cases "on_chunk parse st val")
  have "0x0A \<notin> set (snd st1)"
    using on_chunk_buffer_no_nl [of parse st val] st1 by simp
  then have "read_loop parse st1 rest = on_chunk parse st1 (concat rest)"
    by (rule Cons.IH)
  then show ?case
    by (simp add: st1 on_chunk_append)
qed

section \<open>The effects of a whole session\<close>

lemma read_loop_new:
  "read_loop parse (new_TextDecoder, []) chunks =
     (process_lines parse (terminated_lines chunks),
      (fst (decode new_TextDecoder (concat chunks)),
       last (split_nl (snd (decode new_TextDecoder (concat chunks))))))"
  by (simp add: read_loop_concat on_chunk_def terminated_lines_def split_beta Let_def
      split_nl_not_Nil)

lemma session_effects:
  "ok status \<Longrightarrow>
   fetchJourneyAnalysis parse (Response status (Stream chunks fin)) =
     [SetLoading True, SetError JNull, SetAiAnalysis JNull,
      SetLoadingProgress (JStr (str ''Initializing request...'')),
      SetRealTimeProgress JNull,
      SetLoadingProgress (JStr (str ''Connecting to streaming service...''))]
     @ process_lines parse (terminated_lines chunks)
     @ (case fin of Done \<Rightarrow> []
        | ReadRejected m \<Rightarrow> [SetError (JStr (str ''Failed to fetch data: '' @ m))])
     @ [SetLoading False, SetLoadingProgress JNull, SetRealTimeProgress JNull]"
  by (simp add: fetchJourneyAnalysis_def try_block_def read_loop_new split: reader_end.splits)

lemma run_effects_append: "run_effects (xs @ ys) s = run_effects ys (run_effects xs s)"
  by (simp add: run_effects_def)

lemma run_effects_Cons: "run_effects (x # xs) s = run_effects xs (apply_effect x s)"
  by (simp add: run_effects_def)

lemma run_effects_Nil: "run_effects [] s = s"
  by (simp add: run_effects_def)

lemma handle_data_error: "error (run_effects (fst (handle_data data)) s) = error s"
  by (simp add: handle_data_def run_effects_def)

lemma process_line_error: "error (run_effects (process_line parse line) s) = error s"
  by (simp add: process_line_def handle_data_def run_effects_def split: option.splits)

lemma process_lines_error: "error (run_effects (process_lines parse ls) s) = error s"
proof (induction ls arbitrary: s)
  case Nil
  then show ?case by (simp add: process_lines_def run_effects_def)
next
  case (Cons l ls)
  have "process_lines parse (l # ls) = process_line parse l @ process_lines parse ls"
    by (simp add: process_lines_def)
  then show ?case
    by (simp add: run_effects_append Cons.IH process_line_error)
qed

lemma process_line_histogramData:
  "histogramData (run_effects (process_line parse line) s) =
     (case complete_data parse line of None \<Rightarrow> histogramData s | Some v \<Rightarrow> v)"
  by (simp add: process_line_def complete_data_def is_event_def event_of_def handle_data_def str_def
      run_effects_def split: option.splits)

lemma process_lines_histogramData:
  "histogramData (run_effects (process_lines parse ls) s) =
     latest_result parse (histogramData s) ls"
proof (induction ls arbitrary: s)
  case Nil
  then show ?case by (simp add: process_lines_def run_effects_def)
next
  case (Cons l ls)
  have "process_lines parse (l # ls) = process_line parse l @ process_lines parse ls"
    by (simp add: process_lines_def)
  then show ?case
    by (simp add: run_effects_append Cons.IH process_line_histogramData)
qed

text \<open>The definitions that evaluating a session on a concrete stream unfolds.\<close>

lemmas eval_defs = fetchJourneyAnalysis_def try_block_def ok_def bytes_def str_def
  example_parse_def new_TextDecoder_def new_utf8_decoder_def on_chunk_def decode_def
  utf8_handler_def lead_byte_def utf16_def process_lines_def process_line_def substring_def
  handle_data_def run_effects_def initial_state_def terminated_lines_def event_of_def
  is_event_def complete_data_def

section \<open>Error events\<close>

text \<open>What an \<open>error\<close> event does, whatever the stream: one warning on the console.\<close>

lemma error_event_only_warns:
  assumes "is_event parse ''error'' line" and "event_of parse line = Some data"
  shows "process_line parse line = [ConsoleWarn (Error (property data (str ''message'')))]"
  using assms
  by (simp add: is_event_def event_of_def process_line_def handle_data_def str_def
      split: if_splits)

text \<open>
  C1. An \<open>error\<close> event is meant to end the session as a failure that carries the
  event's message, with no record consumed after it. The code throws
  \<open>new Error(data.message)\<close> inside the \<open>try\<close> whose \<open>catch (parseError)\<close> surrounds the
  parser, so the error never reaches the outer \<open>catch\<close> that calls \<open>setError\<close>. On a
  stream of an \<open>error\<close> event followed by a \<open>complete\<close> event the session only warns
  on the console, goes on to the next record and shows its result; \<open>setError\<close> is never
  called with a message.
\<close>

theorem error_event_is_swallowed:
  \<open>fetchJourneyAnalysis example_parse
     (Response 200 (Stream
        [bytes ''data: {"type":"error","message":"boom"}'' @ [0x0A]
         @ bytes ''data: {"type":"complete","data":{"x":1}}'' @ [0x0A]] Done)) =
   [SetLoading True, SetError JNull, SetAiAnalysis JNull,
    SetLoadingProgress (JStr (str ''Initializing request...'')),
    SetRealTimeProgress JNull,
    SetLoadingProgress (JStr (str ''Connecting to streaming service...'')),
    ConsoleWarn (Error (JStr (str ''boom''))),
    SetHistogramData (JObj [(str ''x'', JNum 1)]),
    SetLoadingProgress JNull, SetRealTimeProgress JNull, ScrollToResults,
    SetLoading False, SetLoadingProgress JNull, SetRealTimeProgress JNull]\<close>
  by (simp add: eval_defs)

section \<open>Settlement\<close>

text \<open>
  C2, as stated: after a \<open>complete\<close> event every later record is ignored and the first
  outcome stays. The loop has no exit but \<open>done\<close>: of two \<open>complete\<close> events in two
  chunks, the result held in the end is the second one's.
\<close>

theorem later_complete_counterexample:
  \<open>histogramData (run_effects (fetchJourneyAnalysis example_parse
     (Response 200 (Stream
        [bytes ''data: {"type":"complete","data":{"x":1}}'' @ [0x0A],
         bytes ''data: {"type":"complete","data":{"x":2}}'' @ [0x0A]] Done))) initial_state)
   = JObj [(str ''x'', JNum 2)]\<close>
  by (simp add: eval_defs)

text \<open>
  C2, as the code has it: records after a \<open>complete\<close> event are still consumed and every
  \<open>complete\<close> event replaces the result. After a session with a successful response,
  on a stream without \<open>error\<close> events, the result is the data of the last \<open>complete\<close>
  event among the terminated lines of the stream, and the result held before when there
  is none.
\<close>

theorem result_is_last_complete:
  assumes "ok status"
    and "\<forall>line\<in>set (terminated_lines chunks). \<not> is_event parse ''error'' line"
  shows "histogramData (run_effects
           (fetchJourneyAnalysis parse (Response status (Stream chunks fin))) s) =
         latest_result parse (histogramData s) (terminated_lines chunks)"
proof -
  let ?mid = "process_lines parse (terminated_lines chunks)"
  have "histogramData (run_effects ?mid s') =
      latest_result parse (histogramData s') (terminated_lines chunks)" for s'
    by (rule process_lines_histogramData)
  then show ?thesis
    by (cases fin)
      (simp_all add: session_effects [OF assms(1)] run_effects_append run_effects_Cons
        run_effects_Nil)
qed

theorem result_is_last_complete_witness:
  \<open>histogramData (run_effects (fetchJourneyAnalysis example_parse
     (Response 200 (Stream
        [bytes ''data: {"type":"complete","data":{"x":1}}'' @ [0x0A],
         bytes ''data: {"type":"complete","data":{"x":2}}'' @ [0x0A]] Done))) initial_state)
   = latest_result example_parse (histogramData initial_state)
       (terminated_lines
          [bytes ''data: {"type":"complete","data":{"x":1}}'' @ [0x0A],
           bytes ''data: {"type":"complete","data":{"x":2}}'' @ [0x0A]]) \<and>
   latest_result example_parse (histogramData initial_state)
       (terminated_lines
          [bytes ''data: {"type":"complete","data":{"x":1}}'' @ [0x0A],
           bytes ''data: {"type":"complete","data":{"x":2}}'' @ [0x0A]])
   = JObj [(str ''x'', JNum 2)]\<close>
proof -
  let ?chunks = \<open>[bytes ''data: {"type":"complete","data":{"x":1}}'' @ [0x0A],
           bytes ''data: {"type":"complete","data":{"x":2}}'' @ [0x0A]]\<close>
  have h1: "ok 200" by (simp add: ok_def)
  have h2: "\<forall>line\<in>set (terminated_lines ?chunks). \<not> is_event example_parse ''error'' line"
    by (simp add: eval_defs)
  have v: \<open>latest_result example_parse (histogramData initial_state) (terminated_lines ?chunks)
       = JObj [(str ''x'', JNum 2)]\<close>
    by (simp add: eval_defs)
  show ?thesis
    using v result_is_last_complete [OF h1 h2, of Done initial_state] by blast
qed

section \<open>The end of the stream\<close>

lemma latest_result_none:
  "\<forall>line\<in>set ls. complete_data parse line = None \<Longrightarrow> latest_result parse h ls = h"
  by (induction ls arbitrary: h) simp_all

text \<open>
  C3, as stated: a stream that ends with no terminal event settles as a failure. After
  \<open>done\<close> the code only leaves the loop and runs \<open>finally\<close>: on a stream of two
  \<open>progress\<close> events no error is set, and no result either.
\<close>

theorem progress_only_counterexample:
  \<open>error (run_effects (fetchJourneyAnalysis example_parse
     (Response 200 (Stream
        [bytes ''data: {"type":"progress","current":1,"total":2}'' @ [0x0A]
         @ bytes ''data: {"type":"progress","current":2,"total":2}'' @ [0x0A]] Done)))
     initial_state) = JNull
   \<and> histogramData (run_effects (fetchJourneyAnalysis example_parse
     (Response 200 (Stream
        [bytes ''data: {"type":"progress","current":1,"total":2}'' @ [0x0A]
         @ bytes ''data: {"type":"progress","current":2,"total":2}'' @ [0x0A]] Done)))
     initial_state) = JNull\<close>
  by (simp add: eval_defs)

text \<open>
  C3, as the code has it: when the source is exhausted after a successful response and no
  terminated line was a \<open>complete\<close> or an \<open>error\<close> event, the session ends with no
  outcome at all: the error stays \<open>null\<close>, the result is the one held before, and
  \<open>loading\<close> is \<open>false\<close>.
\<close>

theorem exhausted_without_terminal_event:
  assumes "ok status"
    and "\<forall>line\<in>set (terminated_lines chunks).
           \<not> is_event parse ''complete'' line \<and> \<not> is_event parse ''error'' line"
  shows "error (run_effects
           (fetchJourneyAnalysis parse (Response status (Stream chunks Done))) s) = JNull
       \<and> histogramData (run_effects
           (fetchJourneyAnalysis parse (Response status (Stream chunks Done))) s)
          = histogramData s
       \<and> loading (run_effects
           (fetchJourneyAnalysis parse (Response status (Stream chunks Done))) s) = False"
proof -
  let ?mid = "process_lines parse (terminated_lines chunks)"
  have none: "\<forall>line\<in>set (terminated_lines chunks). complete_data parse line = None"
    using assms(2) by (simp add: complete_data_def)
  have e: "error (run_effects ?mid s') = error s'" for s'
    by (rule process_lines_error)
  have h: "histogramData (run_effects ?mid s') = histogramData s'" for s'
    by (simp add: process_lines_histogramData latest_result_none [OF none])
  show ?thesis
    by (simp add: session_effects [OF assms(1)] run_effects_append run_effects_Cons
        run_effects_Nil e h)
qed

theorem exhausted_without_terminal_event_witness:
  \<open>error (run_effects (fetchJourneyAnalysis example_parse
     (Response 200 (Stream
        [bytes ''data: {"type":"progress","current":1,"total":2}'' @ [0x0A]
         @ bytes ''data: {"type":"progress","current":2,"total":2}'' @ [0x0A]] Done)))
     initial_state) = JNull
   \<and> histogramData (run_effects (fetchJourneyAnalysis example_parse
     (Response 200 (Stream
        [bytes ''data: {"type":"progress","current":1,"total":2}'' @ [0x0A]
         @ bytes ''data: {"type":"progress","current":2,"total":2}'' @ [0x0A]] Done)))
     initial_state) = histogramData initial_state
   \<and> loading (run_effects (fetchJourneyAnalysis example_parse
     (Response 200 (Stream
        [bytes ''data: {"type":"progress","current":1,"total":2}'' @ [0x0A]
         @ bytes ''data: {"type":"progress","current":2,"total":2}'' @ [0x0A]] Done)))
     initial_state) = False\<close>
proof -
  let ?chunks = \<open>[bytes ''data: {"type":"progress","current":1,"total":2}'' @ [0x0A]
         @ bytes ''data: {"type":"progress","current":2,"total":2}'' @ [0x0A]]\<close>
  have h1: "ok 200" by (simp add: ok_def)
  have h2: "\<forall>line\<in>set (terminated_lines ?chunks).
           \<not> is_event example_parse ''complete'' line
           \<and> \<not> is_event example_parse ''error'' line"
    by (simp add: eval_defs)
  show ?thesis
    using exhausted_without_terminal_event [OF h1 h2, of initial_state] by simp
qed

lemma split_nl_line: "0x0A \<notin> set l \<Longrightarrow> split_nl (l @ 0x0A # r) = l # split_nl r"
  by (induction l) simp_all

lemma last_split_nl_terminated:
  assumes "t = [] \<or> last t = 0x0A"
  shows "last (split_nl t) = []"
proof (cases "t = []")
  case True
  then show ?thesis by simp
next
  case False
  with assms have "t = butlast t @ [0x0A]"
    by (metis append_butlast_last_id)
  then obtain u where u: "t = u @ [0x0A]" ..
  have "split_nl (last (split_nl u) @ [0x0A]) = [last (split_nl u), []]"
    using split_nl_line [OF last_split_nl_no_nl, of u "[]"] by simp
  then show ?thesis
    using split_nl_append [of u "[0x0A]"] by (simp add: u)
qed

lemma split_nl_remainder:
  assumes "t = [] \<or> last t = 0x0A" and "0x0A \<notin> set r"
  shows "split_nl (t @ r) = butlast (split_nl t) @ [r]"
  using split_nl_append [of t r] last_split_nl_terminated [OF assms(1)]
    split_nl_no_nl [OF assms(2)]
  by simp

text \<open>
  C5, as stated: at end-of-stream a non-blank remainder without a linefeed is emitted as a
  last record. The code leaves the loop at \<open>done\<close> and never looks at \<open>buffer\<close> again: a
  stream whose only line is a \<open>complete\<close> event without its linefeed delivers nothing.
\<close>

theorem unterminated_last_line_counterexample:
  \<open>fetchJourneyAnalysis example_parse
     (Response 200 (Stream
        [bytes ''data: {"type":"complete","data":{"x":1}}''] Done)) =
   [SetLoading True, SetError JNull, SetAiAnalysis JNull,
    SetLoadingProgress (JStr (str ''Initializing request...'')),
    SetRealTimeProgress JNull,
    SetLoadingProgress (JStr (str ''Connecting to streaming service...'')),
    SetLoading False, SetLoadingProgress JNull, SetRealTimeProgress JNull]\<close>
  by (simp add: eval_defs)

text \<open>
  C5, as the code has it: at end-of-stream the remainder after the last linefeed is
  dropped, blank or not. When the decoded stream is a terminated part (empty, or ending
  in a linefeed) followed by a remainder without linefeed, the session with a successful
  response processes the lines of the terminated part and nothing else, and the remainder
  is what \<open>buffer\<close> holds when the loop is left.
\<close>

theorem remainder_never_emitted:
  assumes "ok status"
    and "snd (decode new_TextDecoder (concat chunks)) = terminated @ remainder"
    and "terminated = [] \<or> last terminated = 0x0A"
    and "0x0A \<notin> set remainder"
  shows "fetchJourneyAnalysis parse (Response status (Stream chunks Done)) =
     [SetLoading True, SetError JNull, SetAiAnalysis JNull,
      SetLoadingProgress (JStr (str ''Initializing request...'')),
      SetRealTimeProgress JNull,
      SetLoadingProgress (JStr (str ''Connecting to streaming service...''))]
     @ process_lines parse (butlast (split_nl terminated))
     @ [SetLoading False, SetLoadingProgress JNull, SetRealTimeProgress JNull]
   \<and> snd (snd (read_loop parse (new_TextDecoder, []) chunks)) = remainder"
proof -
  have sp: "split_nl (terminated @ remainder) = butlast (split_nl terminated) @ [remainder]"
    using assms(3,4) by (rule split_nl_remainder)
  have "terminated_lines chunks = butlast (split_nl terminated)"
    by (simp add: terminated_lines_def assms(2) sp)
  moreover have "snd (snd (read_loop parse (new_TextDecoder, []) chunks)) = remainder"
    by (simp add: read_loop_new assms(2) sp)
  ultimately show ?thesis
    by (simp add: session_effects [OF assms(1)])
qed

theorem remainder_never_emitted_witness:
  \<open>fetchJourneyAnalysis example_parse
     (Response 200 (Stream
        [bytes ''data: {"type":"progress","current":1,"total":2}'' @ [0x0A]
         @ bytes ''data: {"type":"complete","data":{"x":1}}''] Done)) =
     [SetLoading True, SetError JNull, SetAiAnalysis JNull,
      SetLoadingProgress (JStr (str ''Initializing request...'')),
      SetRealTimeProgress JNull,
      SetLoadingProgress (JStr (str ''Connecting to streaming service...''))]
     @ process_lines example_parse
         (butlast (split_nl (str ''data: {"type":"progress","current":1,"total":2}'' @ [0x0A])))
     @ [SetLoading False, SetLoadingProgress JNull, SetRealTimeProgress JNull]
   \<and> snd (snd (read_loop example_parse (new_TextDecoder, [])
        [bytes ''data: {"type":"progress","current":1,"total":2}'' @ [0x0A]
         @ bytes ''data: {"type":"complete","data":{"x":1}}'']))
     = str ''data: {"type":"complete","data":{"x":1}}''
   \<and> process_lines example_parse
         (butlast (split_nl (str ''data: {"type":"progress","current":1,"total":2}'' @ [0x0A])))
     = [SetLoadingProgress JUndefined]\<close>
proof -
  let ?chunks = \<open>[bytes ''data: {"type":"progress","current":1,"total":2}'' @ [0x0A]
         @ bytes ''data: {"type":"complete","data":{"x":1}}'']\<close>
  let ?t = \<open>str ''data: {"type":"progress","current":1,"total":2}'' @ [0x0A]\<close>
  let ?r = \<open>str ''data: {"type":"complete","data":{"x":1}}''\<close>
  have h1: "ok 200" by (simp add: ok_def)
  have h2: "snd (decode new_TextDecoder (concat ?chunks)) = ?t @ ?r"
    by (simp add: eval_defs)
  have h3: "?t = [] \<or> last ?t = 0x0A" by simp
  have h4: "0x0A \<notin> set ?r" by (simp add: str_def)
  have v: "process_lines example_parse (butlast (split_nl ?t)) = [SetLoadingProgress JUndefined]"
    by (simp add: eval_defs)
  show ?thesis
    using v remainder_never_emitted [OF h1 h2 h3 h4, of example_parse] by blast
qed

text \<open>
  C6, as stated: at end of input the decoder is flushed, and bytes that still form no
  character make the session fail with a message of their own. Every call of
  \<open>decode\<close> passes \<open>stream: true\<close> and none follows \<open>done\<close>: a stream of one
  \<open>progress\<close> event that then ends in the first two bytes of a three-byte character,
  with no terminal event before them, delivers the progress and sets no error.
\<close>

theorem incomplete_trailing_bytes_counterexample:
  \<open>fetchJourneyAnalysis example_parse
     (Response 200 (Stream
        [bytes ''data: {"type":"progress","step":"processing_journeys","current":120,"total":500,"percentage":24.0,"message":"Processing journeys..."}'' @ [0x0A],
         [0xE2, 0x82]] Done)) =
   [SetLoading True, SetError JNull, SetAiAnalysis JNull,
    SetLoadingProgress (JStr (str ''Initializing request...'')),
    SetRealTimeProgress JNull,
    SetLoadingProgress (JStr (str ''Connecting to streaming service...'')),
    SetRealTimeProgress (JObj
        [(str ''current'', JNum 120), (str ''total'', JNum 500),
         (str ''percentage'', JNum 24),
         (str ''message'', JStr (str ''Processing journeys...''))]),
    SetLoading False, SetLoadingProgress JNull, SetRealTimeProgress JNull]\<close>
  by (simp add: eval_defs)

text \<open>
  C6, as the code has it: the decoder is never flushed. A last chunk that yields no text
  and leaves the decoder inside a character changes nothing but the decoder's state: the
  session is the one of the stream without that chunk, so the retained bytes are dropped
  and no failure is reported for them.
\<close>

theorem retained_bytes_are_dropped:
  assumes "read_loop parse (new_TextDecoder, []) chunks = (effs, (decoder, buffer))"
    and "decode decoder tail = (decoder', [])"
    and "bytes_needed (utf8 decoder') \<noteq> 0"
  shows "fetchJourneyAnalysis parse (Response status (Stream (chunks @ [tail]) Done)) =
         fetchJourneyAnalysis parse (Response status (Stream chunks Done))
       \<and> read_loop parse (new_TextDecoder, []) (chunks @ [tail]) =
           (effs, (decoder', buffer))"
proof -
  have "on_chunk parse (new_TextDecoder, []) (concat chunks) = (effs, (decoder, buffer))"
    using assms(1) by (simp add: read_loop_concat)
  moreover have "0x0A \<notin> set buffer"
    using on_chunk_buffer_no_nl [of parse "(new_TextDecoder, [])" "concat chunks"] calculation
    by simp
  then have "on_chunk parse (decoder, buffer) tail = ([], (decoder', buffer))"
    by (simp add: on_chunk_def assms(2) split_nl_no_nl process_lines_def)
  ultimately have "read_loop parse (new_TextDecoder, []) (chunks @ [tail]) =
      (effs, (decoder', buffer))"
    by (simp add: read_loop_concat on_chunk_append)
  then show ?thesis
    using assms(1) by (simp add: fetchJourneyAnalysis_def try_block_def Let_def)
qed

theorem retained_bytes_are_dropped_witness:
  \<open>fetchJourneyAnalysis example_parse
     (Response 200 (Stream
        ([bytes ''data: {"type":"complete","data":{"x":1}}'' @ [0x0A]] @ [[0xE2, 0x82]]) Done)) =
   fetchJourneyAnalysis example_parse
     (Response 200 (Stream
        [bytes ''data: {"type":"complete","data":{"x":1}}'' @ [0x0A]] Done))
   \<and> bytes_needed (utf8 (fst (snd (read_loop example_parse (new_TextDecoder, [])
        ([bytes ''data: {"type":"complete","data":{"x":1}}'' @ [0x0A]] @ [[0xE2, 0x82]]))))) = 2\<close>
proof -
  let ?chunks = \<open>[bytes ''data: {"type":"complete","data":{"x":1}}'' @ [0x0A]]\<close>
  let ?effs = \<open>[SetHistogramData (JObj [(str ''x'', JNum 1)]),
    SetLoadingProgress JNull, SetRealTimeProgress JNull, ScrollToResults]\<close>
  let ?d = "new_TextDecoder\<lparr>BOM_seen := True\<rparr>"
  let ?d' = "\<lparr>utf8 = \<lparr>code_point = 130, bytes_seen = 1, bytes_needed = 2,
      lower_boundary = 0x80, upper_boundary = 0xBF\<rparr>, BOM_seen = True\<rparr>"
  have h1: "read_loop example_parse (new_TextDecoder, []) ?chunks = (?effs, (?d, []))"
    by (simp add: eval_defs)
  have h2: "decode ?d [0xE2, 0x82] = (?d', [])"
    by (simp add: eval_defs)
  have h3: "bytes_needed (utf8 ?d') \<noteq> 0" by simp
  show ?thesis
    using retained_bytes_are_dropped [OF h1 h2 h3, of 200] by simp
qed

section \<open>Chunk boundaries\<close>

text \<open>
  C4. Chunk-boundary invariance: two sequences of chunks that carry the same bytes, cut
  anywhere (inside a character, inside a payload), give the same calls in the same order,
  leave the same decoder state and buffer, and make the same session.
\<close>

theorem chunk_boundary_invariance:
  assumes "concat chunks = concat chunks'"
  shows "read_loop parse (new_TextDecoder, []) chunks =
           read_loop parse (new_TextDecoder, []) chunks'
       \<and> fetchJourneyAnalysis parse (Response status (Stream chunks fin)) =
           fetchJourneyAnalysis parse (Response status (Stream chunks' fin))"
proof -
  have "read_loop parse (new_TextDecoder, []) chunks =
          read_loop parse (new_TextDecoder, []) chunks'"
    using assms by (simp add: read_loop_concat)
  then show ?thesis
    by (simp add: fetchJourneyAnalysis_def try_block_def Let_def)
qed

theorem chunk_boundary_invariance_witness:
  \<open>concat [bytes ''data: {"type":"progress","message":"'' @ [0xE2, 0x82, 0xAC] @ bytes ''"}''
            @ [0x0A] @ bytes ''data: {"type":"complete","data":{"x":1}}'' @ [0x0A]]
   = concat [bytes ''data: {"type":"progress","message":"'' @ [0xE2], [0x82],
             [0xAC] @ bytes ''"}'' @ [0x0A] @ bytes ''data: {"typ'',
             bytes ''e":"complete","data":{"x":1}}'' @ [0x0A]]
   \<and> read_loop example_parse (new_TextDecoder, [])
        [bytes ''data: {"type":"progress","message":"'' @ [0xE2, 0x82, 0xAC] @ bytes ''"}''
            @ [0x0A] @ bytes ''data: {"type":"complete","data":{"x":1}}'' @ [0x0A]]
     = read_loop example_parse (new_TextDecoder, [])
        [bytes ''data: {"type":"progress","message":"'' @ [0xE2], [0x82],
             [0xAC] @ bytes ''"}'' @ [0x0A] @ bytes ''data: {"typ'',
             bytes ''e":"complete","data":{"x":1}}'' @ [0x0A]]
   \<and> fst (read_loop example_parse (new_TextDecoder, [])
        [bytes ''data: {"type":"progress","message":"'' @ [0xE2], [0x82],
             [0xAC] @ bytes ''"}'' @ [0x0A] @ bytes ''data: {"typ'',
             bytes ''e":"complete","data":{"x":1}}'' @ [0x0A]])
     = [SetLoadingProgress (JStr [0x20AC]),
        SetHistogramData (JObj [(str ''x'', JNum 1)]),
        SetLoadingProgress JNull, SetRealTimeProgress JNull, ScrollToResults]\<close>
proof -
  let ?one = \<open>[bytes ''data: {"type":"progress","message":"'' @ [0xE2, 0x82, 0xAC] @ bytes ''"}''
            @ [0x0A] @ bytes ''data: {"type":"complete","data":{"x":1}}'' @ [0x0A]]\<close>
  let ?many = \<open>[bytes ''data: {"type":"progress","message":"'' @ [0xE2], [0x82],
             [0xAC] @ bytes ''"}'' @ [0x0A] @ bytes ''data: {"typ'',
             bytes ''e":"complete","data":{"x":1}}'' @ [0x0A]]\<close>
  have h: "concat ?one = concat ?many" by (simp add: bytes_def)
  have v: \<open>fst (read_loop example_parse (new_TextDecoder, []) ?many)
     = [SetLoadingProgress (JStr [0x20AC]),
        SetHistogramData (JObj [(str ''x'', JNum 1)]),
        SetLoadingProgress JNull, SetRealTimeProgress JNull, ScrollToResults]\<close>
    by (simp add: eval_defs)
  show ?thesis
    using h v chunk_boundary_invariance [OF h, of example_parse 200 Done] by blast
qed

section \<open>Lines and events\<close>

lemma progress_line_call:
  assumes "is_event parse ''progress'' line" and "event_of parse line = Some data"
  shows "process_line parse line =
     [if property data (str ''step'') = JStr (str ''processing_journeys'')
         \<and> truthy (property data (str ''total''))
      then SetRealTimeProgress (JObj
              [(str ''current'', property data (str ''current'')),
               (str ''total'', property data (str ''total'')),
               (str ''percentage'', property data (str ''percentage'')),
               (str ''message'', property data (str ''message''))])
      else SetLoadingProgress (property data (str ''message''))]"
  using assms
  by (simp add: is_event_def event_of_def process_line_def handle_data_def str_def
      split: if_splits)

text \<open>
  C7. A malformed \<open>data: \<close> line between two valid \<open>progress\<close> events does not end the
  session: wherever the three lines stand among the terminated lines of the stream, each
  \<open>progress\<close> event is delivered by one call that carries the event's own fields (its
  current, total, percentage and message as the numeric snapshot when \<open>step\<close> is
  \<open>processing_journeys\<close> and \<open>total\<close> is truthy, its message as the phase label
  otherwise), the malformed line only warns on the console between them, and the lines
  before and after are processed as usual.
\<close>

theorem malformed_line_is_skipped:
  assumes "terminated_lines chunks = before @ [p1, bad, p2] @ after"
    and "is_event parse ''progress'' p1" and "event_of parse p1 = Some d1"
    and "startsWith bad (str ''data: '')" and "parse (substring bad 6) = None"
    and "is_event parse ''progress'' p2" and "event_of parse p2 = Some d2"
  shows "fst (read_loop parse (new_TextDecoder, []) chunks) =
     process_lines parse before
     @ [if property d1 (str ''step'') = JStr (str ''processing_journeys'')
           \<and> truthy (property d1 (str ''total''))
        then SetRealTimeProgress (JObj
                [(str ''current'', property d1 (str ''current'')),
                 (str ''total'', property d1 (str ''total'')),
                 (str ''percentage'', property d1 (str ''percentage'')),
                 (str ''message'', property d1 (str ''message''))])
        else SetLoadingProgress (property d1 (str ''message'')),
        ConsoleWarn SyntaxError,
        if property d2 (str ''step'') = JStr (str ''processing_journeys'')
           \<and> truthy (property d2 (str ''total''))
        then SetRealTimeProgress (JObj
                [(str ''current'', property d2 (str ''current'')),
                 (str ''total'', property d2 (str ''total'')),
                 (str ''percentage'', property d2 (str ''percentage'')),
                 (str ''message'', property d2 (str ''message''))])
        else SetLoadingProgress (property d2 (str ''message''))]
     @ process_lines parse after"
proof -
  note e1 = progress_line_call [OF assms(2,3)]
  note e2 = progress_line_call [OF assms(6,7)]
  have bad: "process_line parse bad = [ConsoleWarn SyntaxError]"
    using assms(4,5) by (simp add: process_line_def)
  have "process_lines parse (before @ [p1, bad, p2] @ after) =
      process_lines parse before
      @ (process_line parse p1 @ process_line parse bad @ process_line parse p2)
      @ process_lines parse after"
    by (simp add: process_lines_def)
  then show ?thesis
    by (simp only: read_loop_new assms(1) fst_conv e1 e2 bad append_Cons append_Nil)
qed

theorem malformed_line_is_skipped_witness:
  \<open>fst (read_loop example_parse (new_TextDecoder, [])
      [bytes ''data: {"type":"progress","step":"processing_journeys","current":120,"total":500,"percentage":24.0,"message":"Processing journeys..."}'' @ [0x0A]
       @ bytes ''data: {"type":"progre'' @ [0x0A]
       @ bytes ''data: {"type":"progress","message":"'' @ [0xE2, 0x82, 0xAC] @ bytes ''"}''
       @ [0x0A]])
   = [SetRealTimeProgress (JObj
        [(str ''current'', JNum 120), (str ''total'', JNum 500),
         (str ''percentage'', JNum 24),
         (str ''message'', JStr (str ''Processing journeys...''))]),
      ConsoleWarn SyntaxError,
      SetLoadingProgress (JStr [0x20AC])]\<close>
proof -
  let ?chunks = \<open>[bytes ''data: {"type":"progress","step":"processing_journeys","current":120,"total":500,"percentage":24.0,"message":"Processing journeys..."}'' @ [0x0A]
       @ bytes ''data: {"type":"progre'' @ [0x0A]
       @ bytes ''data: {"type":"progress","message":"'' @ [0xE2, 0x82, 0xAC] @ bytes ''"}''
       @ [0x0A]]\<close>
  let ?p1 = \<open>str ''data: {"type":"progress","step":"processing_journeys","current":120,"total":500,"percentage":24.0,"message":"Processing journeys..."}''\<close>
  let ?bad = \<open>str ''data: {"type":"progre''\<close>
  let ?p2 = \<open>str ''data: {"type":"progress","message":"'' @ [0x20AC] @ str ''"}''\<close>
  let ?d1 = "JObj [(str ''type'', JStr (str ''progress'')),
             (str ''step'', JStr (str ''processing_journeys'')),
             (str ''current'', JNum 120), (str ''total'', JNum 500),
             (str ''percentage'', JNum 24),
             (str ''message'', JStr (str ''Processing journeys...''))]"
  let ?d2 = "JObj [(str ''type'', JStr (str ''progress'')), (str ''message'', JStr [0x20AC])]"
  have h1: "terminated_lines ?chunks = [] @ [?p1, ?bad, ?p2] @ []"
    by (simp add: eval_defs)
  have h2: "is_event example_parse ''progress'' ?p1" by (simp add: eval_defs)
  have h3: "event_of example_parse ?p1 = Some ?d1" by (simp add: eval_defs)
  have h4: "startsWith ?bad (str ''data: '')" by (simp add: eval_defs)
  have h5: "example_parse (substring ?bad 6) = None" by (simp add: eval_defs)
  have h6: "is_event example_parse ''progress'' ?p2" by (simp add: eval_defs)
  have h7: "event_of example_parse ?p2 = Some ?d2" by (simp add: eval_defs)
  show ?thesis
    using malformed_line_is_skipped [OF h1 h2 h3 h4 h5 h6 h7]
    by (simp add: process_lines_def str_def)
qed

text \<open>
  C8, as stated: every \<open>progress\<close> event that carries a \<open>total\<close> replaces the numeric
  snapshot. The code also asks for \<open>step\<close> to be \<open>processing_journeys\<close>: a \<open>progress\<close>
  event with \<open>current\<close> and \<open>total\<close> but no \<open>step\<close> only forwards its message, here
  \<open>undefined\<close>, and the snapshot is not touched.
\<close>

theorem progress_with_total_counterexample:
  \<open>process_line example_parse (str ''data: {"type":"progress","current":1,"total":2}'')
   = [SetLoadingProgress JUndefined]\<close>
  by (simp add: eval_defs)

text \<open>
  C8, as the code has it: a \<open>progress\<close> event whose \<open>step\<close> is \<open>processing_journeys\<close>
  and whose \<open>total\<close> is truthy replaces the numeric snapshot with its own
  current, total, percentage and message, in one call that takes nothing from the
  snapshot before; every other \<open>progress\<close> event forwards only its message as the phase
  label.
\<close>

theorem progress_dispatch:
  assumes "is_event parse ''progress'' line" and "event_of parse line = Some data"
  shows "process_line parse line =
     (if property data (str ''step'') = JStr (str ''processing_journeys'')
         \<and> truthy (property data (str ''total''))
      then [SetRealTimeProgress (JObj
              [(str ''current'', property data (str ''current'')),
               (str ''total'', property data (str ''total'')),
               (str ''percentage'', property data (str ''percentage'')),
               (str ''message'', property data (str ''message''))])]
      else [SetLoadingProgress (property data (str ''message''))])"
  using assms
  by (simp add: is_event_def event_of_def process_line_def handle_data_def str_def
      split: if_splits)

theorem progress_dispatch_witness:
  \<open>process_line example_parse
     (str ''data: {"type":"progress","step":"processing_journeys","current":120,"total":500,"percentage":24.0,"message":"Processing journeys..."}'')
   = [SetRealTimeProgress (JObj
        [(str ''current'', JNum 120), (str ''total'', JNum 500),
         (str ''percentage'', JNum 24),
         (str ''message'', JStr (str ''Processing journeys...''))])]
   \<and> process_line example_parse
     (str ''data: {"type":"progress","message":"'' @ [0x20AC] @ str ''"}'')
   = [SetLoadingProgress (JStr [0x20AC])]\<close>
proof -
  let ?l1 = \<open>str ''data: {"type":"progress","step":"processing_journeys","current":120,"total":500,"percentage":24.0,"message":"Processing journeys..."}''\<close>
  let ?d1 = "JObj [(str ''type'', JStr (str ''progress'')),
             (str ''step'', JStr (str ''processing_journeys'')),
             (str ''current'', JNum 120), (str ''total'', JNum 500),
             (str ''percentage'', JNum 24),
             (str ''message'', JStr (str ''Processing journeys...''))]"
  let ?l2 = \<open>str ''data: {"type":"progress","message":"'' @ [0x20AC] @ str ''"}''\<close>
  let ?d2 = "JObj [(str ''type'', JStr (str ''progress'')), (str ''message'', JStr [0x20AC])]"
  have a1: "is_event example_parse ''progress'' ?l1" by (simp add: eval_defs)
  have a2: "event_of example_parse ?l1 = Some ?d1" by (simp add: eval_defs)
  have b1: "is_event example_parse ''progress'' ?l2" by (simp add: eval_defs)
  have b2: "event_of example_parse ?l2 = Some ?d2" by (simp add: eval_defs)
  show ?thesis
    using progress_dispatch [OF a1 a2] progress_dispatch [OF b1 b2]
    by (simp add: str_def)
qed

lemma startsWith_take: "startsWith s p = (take (length p) s = p)"
  by (induction s p rule: startsWith.induct) auto

text \<open>
  C10. A line is an event line exactly when its first six code units are
  \<open>d a t a : space\<close>; any other line makes no call at all, not even a warning, and the
  payload handed to the parser is the line from index 6 on.
\<close>

theorem event_line_prefix:
  "startsWith line (str ''data: '') = (take 6 line = [0x64, 0x61, 0x74, 0x61, 0x3A, 0x20])
   \<and> (take 6 line \<noteq> [0x64, 0x61, 0x74, 0x61, 0x3A, 0x20] \<longrightarrow>
        process_line parse line = [])
   \<and> (take 6 line = [0x64, 0x61, 0x74, 0x61, 0x3A, 0x20] \<longrightarrow>
        process_line parse line =
          (case parse (drop 6 line) of
             None \<Rightarrow> [ConsoleWarn SyntaxError]
           | Some data \<Rightarrow>
               (case handle_data data of
                  (effs, None) \<Rightarrow> effs
                | (effs, Some e) \<Rightarrow> effs @ [ConsoleWarn e])))"
proof -
  have p: "startsWith line (str ''data: '') = (take 6 line = [0x64, 0x61, 0x74, 0x61, 0x3A, 0x20])"
  proof -
    have "length (str ''data: '') = 6" by (simp add: str_def)
    then have "startsWith line (str ''data: '') = (take 6 line = str ''data: '')"
      by (simp add: startsWith_take)
    then show ?thesis by (simp add: str_def)
  qed
  have d: "substring line 6 = drop 6 line"
    by (simp add: substring_def min_def)
  show ?thesis
    unfolding process_line_def p d by simp
qed

theorem event_line_prefix_witness:
  \<open>take 6 (str ''data:{"type":"complete","data":{"x":1}}'') \<noteq> [0x64, 0x61, 0x74, 0x61, 0x3A, 0x20]
   \<and> process_line example_parse (str ''data:{"type":"complete","data":{"x":1}}'') = []
   \<and> take 6 (str ''DATA: {"type":"complete","data":{"x":1}}'') \<noteq> [0x64, 0x61, 0x74, 0x61, 0x3A, 0x20]
   \<and> process_line example_parse (str ''DATA: {"type":"complete","data":{"x":1}}'') = []
   \<and> take 6 (str ''data: {"type":"complete","data":{"x":1}}'') = [0x64, 0x61, 0x74, 0x61, 0x3A, 0x20]
   \<and> drop 6 (str ''data: {"type":"complete","data":{"x":1}}'') = str ''{"type":"complete","data":{"x":1}}''
   \<and> process_line example_parse (str ''data: {"type":"complete","data":{"x":1}}'') =
       [SetHistogramData (JObj [(str ''x'', JNum 1)]),
        SetLoadingProgress JNull, SetRealTimeProgress JNull, ScrollToResults]\<close>
proof -
  let ?nospace = \<open>str ''data:{"type":"complete","data":{"x":1}}''\<close>
  let ?upper = \<open>str ''DATA: {"type":"complete","data":{"x":1}}''\<close>
  let ?good = \<open>str ''data: {"type":"complete","data":{"x":1}}''\<close>
  have n: "take 6 ?nospace \<noteq> [0x64, 0x61, 0x74, 0x61, 0x3A, 0x20]" by (simp add: str_def)
  have u: "take 6 ?upper \<noteq> [0x64, 0x61, 0x74, 0x61, 0x3A, 0x20]" by (simp add: str_def)
  have g: "take 6 ?good = [0x64, 0x61, 0x74, 0x61, 0x3A, 0x20]" by (simp add: str_def)
  have dg: \<open>drop 6 ?good = str ''{"type":"complete","data":{"x":1}}''\<close> by (simp add: str_def)
  have pg: \<open>example_parse (str ''{"type":"complete","data":{"x":1}}'') =
      Some (JObj [(str ''type'', JStr (str ''complete'')),
             (str ''data'', JObj [(str ''x'', JNum 1)])])\<close>
    by (simp add: example_parse_def str_def)
  have hg: \<open>handle_data (JObj [(str ''type'', JStr (str ''complete'')),
             (str ''data'', JObj [(str ''x'', JNum 1)])]) =
       ([SetHistogramData (JObj [(str ''x'', JNum 1)]),
        SetLoadingProgress JNull, SetRealTimeProgress JNull, ScrollToResults], None)\<close>
    by (simp add: handle_data_def str_def)
  show ?thesis
    using event_line_prefix [of ?nospace example_parse] event_line_prefix [of ?upper example_parse]
      event_line_prefix [of ?good example_parse] n u g
    by (simp add: dg pg hg)
qed

end
